theory Spec2Isabelle
  imports Main "HOL-Library.Sublist"
begin

section \<open>Account service: the route layer of service/routes.py\<close>

text \<open>
  The handlers of \<^verbatim>\<open>service/routes.py\<close> are embedded as functions over an explicit
  store. A handler that can raise returns \<open>error + response\<close> (\<open>Inl\<close> the exception)
  together with the store it leaves behind. A request that raises issues no persistence
  write; what a deserialization had assigned in place to a stored entity before it raised
  stays on the entity, since no handler rolls back.
\<close>

subsection \<open>Wire data\<close>

text \<open>
  JSON values as the JSON parser hands them to Python (numbers restricted to integers; an
  object as the list of its members, read by key with \<open>map_of\<close>).
\<close>

datatype json =
    JNull
  | JBool bool
  | JNum int
  | JStr string
  | JArr "json list"
  | JObj "(string \<times> json) list"

text \<open>
  The part of a request the handlers read: the value of the Content-Type header, if the
  header is present, and the body as the JSON parser reads it (\<open>None\<close> when the body is
  not JSON text).
\<close>

record request =
  content_type :: "string option"
  data :: "json option"

datatype body = Json json | Text string

record response =
  status_code :: nat
  headers :: "(string \<times> string) list"
  body :: body

text \<open>\<^verbatim>\<open>make_response(body, status, headers)\<close>\<close>

definition make_response :: "body \<Rightarrow> nat \<Rightarrow> (string \<times> string) list \<Rightarrow> response" where
  "make_response b st hs = \<lparr>status_code = st, headers = hs, body = b\<rparr>"

text \<open>
  Exceptions: an HTTP exception carrying its status (\<^verbatim>\<open>abort(code)\<close>, and the ones the
  framework raises itself), and the validation failure of deserialization.
\<close>

datatype error = HTTPException nat | DataValidationError

text \<open>
  What a request handler runs in: the current date (as its ISO rendering), and what the
  installed framework version does when \<^verbatim>\<open>request.get_json()\<close> meets a media type that
  is not JSON: \<open>None\<close> when it quietly returns Python's \<^verbatim>\<open>None\<close>, \<open>Some code\<close> when it
  raises the HTTP exception \<open>code\<close> (400 Bad Request or 415 Unsupported Media Type,
  by version).
\<close>

record env =
  today :: string
  non_json :: "nat option"

subsection \<open>The framework's request.get_json()\<close>

definition lower :: "char \<Rightarrow> char" where
  "lower c = (let n = (of_char c :: nat) in if 65 \<le> n \<and> n \<le> 90 then char_of (n + 32) else c)"

definition is_space :: "char \<Rightarrow> bool" where
  "is_space c = (c = CHR '' '' \<or> c = CHR 0x09)"

definition strip :: "string \<Rightarrow> string" where
  "strip v = rev (dropWhile is_space (rev (dropWhile is_space v)))"

text \<open>The media type of a Content-Type value: the part before the parameters, in lower case.\<close>

definition mimetype :: "string option \<Rightarrow> string" where
  "mimetype ct =
     (case ct of
        None \<Rightarrow> []
      | Some v \<Rightarrow> map lower (strip (takeWhile (\<lambda>c. c \<noteq> CHR '';'') v)))"

definition is_json :: "request \<Rightarrow> bool" where
  "is_json req =
     (let mt = mimetype (content_type req)
      in mt = ''application/json'' \<or> (prefix ''application/'' mt \<and> suffix ''+json'' mt))"

text \<open>
  \<^verbatim>\<open>request.get_json()\<close> with its default arguments: the body is parsed only when the
  media type is JSON, and a body that does not parse raises 400 Bad Request.
\<close>

definition get_json :: "env \<Rightarrow> request \<Rightarrow> error + json" where
  "get_json e req =
     (if \<not> is_json req then
        (case non_json e of None \<Rightarrow> Inr JNull | Some code \<Rightarrow> Inl (HTTPException code))
      else
        (case data req of None \<Rightarrow> Inl (HTTPException 400) | Some j \<Rightarrow> Inr j))"

subsection \<open>The Account entity and its persistence\<close>

text \<open>
  Modelled from the spec: the attributes of the Account class of \<^verbatim>\<open>service/models.py\<close>,
  which is not among the sources. The spec's data model gives \<open>id\<close> (server-assigned,
  absent until the account is created), \<open>name\<close>, \<open>email\<close>, \<open>address\<close>, \<open>phone_number\<close>
  and \<open>date_joined\<close>. The attributes hold the values the payload gave, a date as its ISO
  rendering; what a value of another type or a malformed date does is not described by
  the spec and is not part of the model.
\<close>

record account =
  acc_id :: "int option"
  name :: json
  email :: json
  address :: json
  phone_number :: json
  date_joined :: json

text \<open>Modelled from the spec: \<^verbatim>\<open>Account()\<close>, a fresh entity with no attribute set.\<close>

definition Account :: account where
  "Account = \<lparr>acc_id = None, name = JNull, email = JNull, address = JNull,
              phone_number = JNull, date_joined = JNull\<rparr>"

text \<open>
  Modelled from the spec: \<^verbatim>\<open>Account.serialize\<close>, absent from the sources. Object to
  mapping with the keys \<open>id, name, email, address, phone_number, date_joined\<close>.
\<close>

definition Account_serialize :: "account \<Rightarrow> json" where
  "Account_serialize a =
     JObj [(''id'', (case acc_id a of None \<Rightarrow> JNull | Some i \<Rightarrow> JNum i)),
           (''name'', name a),
           (''email'', email a),
           (''address'', address a),
           (''phone_number'', phone_number a),
           (''date_joined'', date_joined a)]"

text \<open>
  Modelled from the spec: \<^verbatim>\<open>Account.deserialize\<close>, absent from the sources. Mapping to
  object, assigning in place: a validation failure if the payload is not a JSON object or
  a required key (\<open>name\<close>, \<open>email\<close>, \<open>address\<close>) is absent. Only the supplied values change:
  an optional key that is not supplied leaves its attribute as it was, except that
  \<open>date_joined\<close> defaults to the current date on an entity that is being created (one
  that has no id yet); \<open>id\<close> is untouched. A failure comes with the entity as the
  assignments made before it left it.
\<close>

fun Account_deserialize :: "env \<Rightarrow> account \<Rightarrow> json \<Rightarrow> (error \<times> account) + account" where
  "Account_deserialize e a (JObj kvs) =
     (case map_of kvs ''name'' of
        None \<Rightarrow> Inl (DataValidationError, a)
      | Some n \<Rightarrow>
          (case map_of kvs ''email'' of
             None \<Rightarrow> Inl (DataValidationError, a\<lparr>name := n\<rparr>)
           | Some m \<Rightarrow>
               (case map_of kvs ''address'' of
                  None \<Rightarrow> Inl (DataValidationError, a\<lparr>name := n, email := m\<rparr>)
                | Some ad \<Rightarrow>
                    Inr (a\<lparr>name := n, email := m, address := ad,
                           phone_number :=
                             (case map_of kvs ''phone_number'' of
                                None \<Rightarrow> phone_number a
                              | Some p \<Rightarrow> p),
                           date_joined :=
                             (case map_of kvs ''date_joined'' of
                                None \<Rightarrow>
                                  (if acc_id a = None then JStr (today e) else date_joined a)
                              | Some d \<Rightarrow> d)\<rparr>))))"
| "Account_deserialize e a _ = Inl (DataValidationError, a)"

text \<open>
  Modelled from the spec: the persisted state, a single table of Account rows keyed by an
  auto-incrementing \<open>id\<close>. \<open>rows\<close> holds the entities of the table in insertion order, as
  \<open>find\<close> and \<open>all\<close> return them; \<open>next_id\<close> is the next id the store assigns, and \<open>calls\<close>
  the writing persistence calls issued so far.
\<close>

datatype call = Created int | Updated int | Deleted int

record store =
  rows :: "account list"
  next_id :: int
  calls :: "call list"

definition empty_store :: store where
  "empty_store = \<lparr>rows = [], next_id = 1, calls = []\<rparr>"

text \<open>
  Modelled from the spec: the CRUD methods of the Account class (\<open>create\<close>, \<open>update\<close>,
  \<open>delete\<close>, \<open>find\<close>, \<open>all\<close>), absent from the sources. \<open>create\<close> lets the store assign
  the id; \<open>find\<close> is the query by id; \<open>all\<close> the query of every row.
\<close>

definition Account_create :: "account \<Rightarrow> store \<Rightarrow> account \<times> store" where
  "Account_create a s =
     (let a' = a\<lparr>acc_id := Some (next_id s)\<rparr>
      in (a', s\<lparr>rows := rows s @ [a'], next_id := next_id s + 1,
                calls := calls s @ [Created (next_id s)]\<rparr>))"

definition Account_find :: "store \<Rightarrow> int \<Rightarrow> account option" where
  "Account_find s by_id = List.find (\<lambda>a. acc_id a = Some by_id) (rows s)"

definition Account_all :: "store \<Rightarrow> account list" where
  "Account_all s = rows s"

definition Account_update :: "account \<Rightarrow> store \<Rightarrow> store" where
  "Account_update a s =
     s\<lparr>rows := map (\<lambda>r. if acc_id r = acc_id a then a else r) (rows s),
       calls := calls s @ (case acc_id a of None \<Rightarrow> [] | Some i \<Rightarrow> [Updated i])\<rparr>"

definition Account_delete :: "account \<Rightarrow> store \<Rightarrow> store" where
  "Account_delete a s =
     s\<lparr>rows := filter (\<lambda>r. acc_id r \<noteq> acc_id a) (rows s),
       calls := calls s @ (case acc_id a of None \<Rightarrow> [] | Some i \<Rightarrow> [Deleted i])\<rparr>"

text \<open>
  An attribute assignment on the entity that \<open>find\<close> returned: the stored entity (the first
  row with its id) takes the new attribute values. Nothing is written through the
  persistence layer, so \<open>calls\<close> stays as it was.
\<close>

fun assign_in_place :: "account \<Rightarrow> account list \<Rightarrow> account list" where
  "assign_in_place a [] = []"
| "assign_in_place a (r # rs) =
     (if acc_id r = acc_id a then a # rs else r # assign_in_place a rs)"

text \<open>
  Modelled from the spec: the error handlers of \<^verbatim>\<open>service/common/error_handlers.py\<close>,
  absent from the sources. The status a client sees: an HTTP exception answers with its
  own status, and the validation failure surfaces as HTTP 400.
\<close>

fun status_of :: "error + response \<Rightarrow> nat" where
  "status_of (Inl (HTTPException code)) = code"
| "status_of (Inl DataValidationError) = 400"
| "status_of (Inr r) = status_code r"

subsection \<open>The handlers\<close>

text \<open>
  \<^verbatim>\<open>check_content_type(media_type)\<close>: returns when the Content-Type header is present,
  not empty and equal to the media type; aborts with 415 otherwise.
\<close>

definition check_content_type :: "string \<Rightarrow> request \<Rightarrow> error + unit" where
  "check_content_type media_type req =
     (case content_type req of
        None \<Rightarrow> Inl (HTTPException 415)
      | Some ct \<Rightarrow>
          if ct \<noteq> [] \<and> ct = media_type then Inr () else Inl (HTTPException 415))"

text \<open>\<^verbatim>\<open>POST /accounts\<close>\<close>

definition create_accounts :: "env \<Rightarrow> request \<Rightarrow> store \<Rightarrow> (error + response) \<times> store" where
  "create_accounts e req s =
     (case check_content_type ''application/json'' req of
        Inl x \<Rightarrow> (Inl x, s)
      | Inr _ \<Rightarrow>
          (case get_json e req of
             Inl x \<Rightarrow> (Inl x, s)
           | Inr d \<Rightarrow>
               (case Account_deserialize e Account d of
                  Inl (x, _) \<Rightarrow> (Inl x, s)
                | Inr account \<Rightarrow>
                    (let (account', s') = Account_create account s;
                         message = Account_serialize account';
                         location_url = ''/''
                     in (Inr (make_response (Json message) 201 [(''Location'', location_url)]),
                         s')))))"

text \<open>\<^verbatim>\<open>GET /accounts\<close>\<close>

definition get_all_accounts_route :: "store \<Rightarrow> response" where
  "get_all_accounts_route s =
     (let accounts = map Account_serialize (Account_all s)
      in make_response (Json (JArr accounts)) 200 [])"

definition not_found :: json where
  "not_found = JObj [(''error'', JStr ''Account not found'')]"

text \<open>\<^verbatim>\<open>GET /accounts/<int:account_id>\<close>\<close>

definition get_account :: "int \<Rightarrow> store \<Rightarrow> response" where
  "get_account account_id s =
     (case Account_find s account_id of
        None \<Rightarrow> make_response (Json not_found) 404 []
      | Some account \<Rightarrow> make_response (Json (Account_serialize account)) 200 [])"

text \<open>\<^verbatim>\<open>PUT /accounts/<int:account_id>\<close>\<close>

text \<open>
  \<^verbatim>\<open>account.deserialize(data)\<close> assigns to the entity that \<open>find\<close> returned. When it
  raises, the assignments made so far stay on that entity; when it returns,
  \<^verbatim>\<open>account.update()\<close> writes the entity through the persistence layer.
\<close>

definition update_account :: "env \<Rightarrow> int \<Rightarrow> request \<Rightarrow> store \<Rightarrow> (error + response) \<times> store" where
  "update_account e account_id req s =
     (case Account_find s account_id of
        None \<Rightarrow> (Inr (make_response (Json not_found) 404 []), s)
      | Some account \<Rightarrow>
          (case get_json e req of
             Inl x \<Rightarrow> (Inl x, s)
           | Inr d \<Rightarrow>
               (case Account_deserialize e account d of
                  Inl (x, left) \<Rightarrow> (Inl x, s\<lparr>rows := assign_in_place left (rows s)\<rparr>)
                | Inr account' \<Rightarrow>
                    (Inr (make_response (Json (Account_serialize account')) 200 []),
                     Account_update account' s))))"

text \<open>\<^verbatim>\<open>DELETE /accounts/<int:account_id>\<close>\<close>

definition delete_account :: "int \<Rightarrow> store \<Rightarrow> response \<times> store" where
  "delete_account account_id s =
     (let s' = (case Account_find s account_id of
                  None \<Rightarrow> s
                | Some account \<Rightarrow> Account_delete account s)
      in (make_response (Text []) 204 [], s'))"

text \<open>
  The test client's \<^verbatim>\<open>post(BASE_URL, json=payload)\<close>: the payload as the body, with
  Content-Type application/json; and the test suite's \<^verbatim>\<open>_create_accounts\<close>, one such
  POST after the other.
\<close>

definition json_request :: "json \<Rightarrow> request" where
  "json_request p = \<lparr>content_type = Some ''application/json'', data = Some p\<rparr>"

fun create_all :: "env \<Rightarrow> json list \<Rightarrow> store \<Rightarrow> store" where
  "create_all e [] s = s"
| "create_all e (p # ps) s = create_all e ps (snd (create_accounts e (json_request p) s))"

text \<open>A store as the operations leave it: every row carries an id the store has handed out.\<close>

definition store_ok :: "store \<Rightarrow> bool" where
  "store_ok s = list_all (\<lambda>a. case acc_id a of None \<Rightarrow> False | Some i \<Rightarrow> i < next_id s) (rows s)"

text \<open>A payload with the three required keys.\<close>

fun valid_payload :: "json \<Rightarrow> bool" where
  "valid_payload (JObj kvs) =
     (map_of kvs ''name'' \<noteq> None \<and> map_of kvs ''email'' \<noteq> None \<and> map_of kvs ''address'' \<noteq> None)"
| "valid_payload _ = False"

subsection \<open>The example scenario\<close>

text \<open>
  The spec's example: Alice's payload posted on the empty store. The account gets id 1;
  999999 is the id the tests use for an account that does not exist.
\<close>

definition example_env :: env where
  "example_env = \<lparr>today = ''2026-11-04'', non_json = Some 400\<rparr>"

definition alice :: json where
  "alice = JObj [(''name'', JStr ''Alice''), (''email'', JStr ''a@x.com''),
                 (''address'', JStr ''1 Main St''), (''phone_number'', JStr ''555-1111'')]"

definition alice_store :: store where
  "alice_store = snd (create_accounts example_env (json_request alice) empty_store)"

text \<open>A replacement payload that leaves the optional keys out.\<close>

definition bob :: json where
  "bob = JObj [(''name'', JStr ''Bob''), (''email'', JStr ''b@x.com''),
               (''address'', JStr ''2 Side St'')]"

section \<open>Properties\<close>

subsection \<open>Lemmas about the parts\<close>

lemma find_snoc:
  "List.find P (xs @ [x]) =
     (case List.find P xs of None \<Rightarrow> (if P x then Some x else None) | Some y \<Rightarrow> Some y)"
  by (induction xs) auto

lemma is_json_exact: "content_type req = Some ''application/json'' \<Longrightarrow> is_json req"
  by (simp add: is_json_def mimetype_def strip_def is_space_def lower_def)

lemma check_content_type_415:
  "content_type req \<noteq> Some ''application/json'' \<Longrightarrow>
   check_content_type ''application/json'' req = Inl (HTTPException 415)"
  by (auto simp: check_content_type_def split: option.splits)

lemma get_json_exact:
  "content_type req = Some ''application/json'' \<Longrightarrow>
   get_json e req = (case data req of None \<Rightarrow> Inl (HTTPException 400) | Some j \<Rightarrow> Inr j)"
  by (simp add: get_json_def is_json_exact)

lemma deserialize_invalid:
  "\<not> valid_payload p \<Longrightarrow> \<exists>left. Account_deserialize e a p = Inl (DataValidationError, left)"
  by (cases p) (auto split: option.splits)

lemma deserialize_cases:
  "(\<exists>left. Account_deserialize e a p = Inl (DataValidationError, left)) \<or>
   (\<exists>a'. Account_deserialize e a p = Inr a')"
  by (cases p) (auto split: option.splits)

lemma deserialize_acc_id:
  "Account_deserialize e a p = Inr a' \<Longrightarrow> acc_id a' = acc_id a"
  by (cases p) (auto split: option.splits)

lemma deserialize_left_acc_id:
  "Account_deserialize e a p = Inl (x, left) \<Longrightarrow> acc_id left = acc_id a"
  by (cases p) (auto split: option.splits)

lemma assign_found:
  "List.find (\<lambda>r. acc_id r = Some i) xs = Some a \<Longrightarrow> assign_in_place a xs = xs"
proof (induction xs)
  case Nil
  then show ?case by simp
next
  case (Cons r rs)
  show ?case
  proof (cases "acc_id r = Some i")
    case True
    with Cons.prems show ?thesis by simp
  next
    case False
    with Cons.prems have f: "List.find (\<lambda>r. acc_id r = Some i) rs = Some a" by simp
    then have "acc_id a = Some i" by (auto simp: find_Some_iff)
    with False Cons.IH [OF f] show ?thesis by simp
  qed
qed

lemma assign_set: "set (assign_in_place a xs) \<subseteq> insert a (set xs)"
  by (induction xs) auto

lemma deserialize_fresh:
  "valid_payload (JObj kvs) \<Longrightarrow>
   Account_deserialize e Account (JObj kvs) =
     Inr (Account\<lparr>name := the (map_of kvs ''name''), email := the (map_of kvs ''email''),
            address := the (map_of kvs ''address''),
            phone_number :=
              (case map_of kvs ''phone_number'' of None \<Rightarrow> JNull | Some p \<Rightarrow> p),
            date_joined :=
              (case map_of kvs ''date_joined'' of None \<Rightarrow> JStr (today e) | Some d \<Rightarrow> d)\<rparr>)"
  by (auto simp: Account_def split: option.splits)

lemma find_fresh: "store_ok s \<Longrightarrow> Account_find s (next_id s) = None"
  by (auto simp: store_ok_def Account_find_def find_None_iff list_all_iff split: option.splits)

lemma find_created:
  "store_ok s \<Longrightarrow>
   Account_find (snd (Account_create a s)) (next_id s) = Some (a\<lparr>acc_id := Some (next_id s)\<rparr>)"
  using find_fresh [of s]
  by (simp add: Account_create_def Account_find_def Let_def find_snoc)

lemma find_acc_id: "Account_find s i = Some a \<Longrightarrow> acc_id a = Some i"
  by (auto simp: Account_find_def find_Some_iff)

lemma find_deleted: "acc_id a = Some i \<Longrightarrow> Account_find (Account_delete a s) i = None"
  by (auto simp: Account_find_def Account_delete_def find_None_iff)

lemma find_map_same:
  "acc_id a' = Some i \<Longrightarrow> List.find (\<lambda>r. acc_id r = Some i) xs = Some a \<Longrightarrow>
   List.find (\<lambda>r. acc_id r = Some i) (map (\<lambda>r. if acc_id r = Some i then a' else r) xs) = Some a'"
  by (induction xs) (auto split: if_splits)

lemma find_map_other:
  "acc_id a' = Some i \<Longrightarrow> j \<noteq> i \<Longrightarrow>
   List.find (\<lambda>r. acc_id r = Some j) (map (\<lambda>r. if acc_id r = Some i then a' else r) xs) =
   List.find (\<lambda>r. acc_id r = Some j) xs"
  by (induction xs) auto

lemma find_updated_same:
  "acc_id a' = Some i \<Longrightarrow> Account_find s i = Some a \<Longrightarrow>
   Account_find (Account_update a' s) i = Some a'"
  by (simp add: Account_find_def Account_update_def find_map_same)

lemma find_updated_other:
  "acc_id a' = Some i \<Longrightarrow> j \<noteq> i \<Longrightarrow>
   Account_find (Account_update a' s) j = Account_find s j"
  by (simp add: Account_find_def Account_update_def find_map_other)

lemma store_ok_empty: "store_ok empty_store"
  by (simp add: store_ok_def empty_store_def)

lemma store_ok_create: "store_ok s \<Longrightarrow> store_ok (snd (Account_create a s))"
  by (auto simp: store_ok_def Account_create_def Let_def list_all_iff split: option.splits)

lemma store_ok_update:
  "store_ok s \<Longrightarrow> Account_find s i = Some a \<Longrightarrow> acc_id a' = Some i \<Longrightarrow>
   store_ok (Account_update a' s)"
  by (auto simp: store_ok_def Account_update_def Account_find_def find_Some_iff list_all_iff
      split: option.splits)

lemma store_ok_delete: "store_ok s \<Longrightarrow> store_ok (Account_delete a s)"
  by (auto simp: store_ok_def Account_delete_def list_all_iff split: option.splits)

lemma create_accounts_valid:
  "content_type req = Some ''application/json'' \<Longrightarrow> data req = Some (JObj kvs) \<Longrightarrow>
   valid_payload (JObj kvs) \<Longrightarrow>
   create_accounts e req s =
     (let (a', s') =
        Account_create
          (Account\<lparr>name := the (map_of kvs ''name''), email := the (map_of kvs ''email''),
             address := the (map_of kvs ''address''),
             phone_number :=
               (case map_of kvs ''phone_number'' of None \<Rightarrow> JNull | Some p \<Rightarrow> p),
             date_joined :=
               (case map_of kvs ''date_joined'' of None \<Rightarrow> JStr (today e) | Some d \<Rightarrow> d)\<rparr>) s
      in (Inr (make_response (Json (Account_serialize a')) 201 [(''Location'', ''/'')]), s'))"
proof -
  assume ct: "content_type req = Some ''application/json''"
    and d: "data req = Some (JObj kvs)" and v: "valid_payload (JObj kvs)"
  show ?thesis
    unfolding create_accounts_def
    by (simp add: get_json_exact [OF ct] d deserialize_fresh [OF v] check_content_type_def ct
        del: Account_deserialize.simps valid_payload.simps)
qed

lemma store_ok_create_accounts: "store_ok s \<Longrightarrow> store_ok (snd (create_accounts e req s))"
proof -
  have "store_ok s'" if "store_ok s" "Account_create a s = (a', s')" for a a' s'
    using store_ok_create [OF that(1), of a] that(2) by simp
  then show "store_ok s \<Longrightarrow> store_ok (snd (create_accounts e req s))"
    by (auto simp: create_accounts_def split: sum.splits prod.splits)
qed

lemma alice_store_eq:
  "alice_store =
     \<lparr>rows = [\<lparr>acc_id = Some 1, name = JStr ''Alice'', email = JStr ''a@x.com'',
               address = JStr ''1 Main St'', phone_number = JStr ''555-1111'',
               date_joined = JStr ''2026-11-04''\<rparr>],
      next_id = 2, calls = [Created 1]\<rparr>"
  by (simp add: alice_store_def create_accounts_valid [where kvs = "[(''name'', JStr ''Alice''), (''email'', JStr ''a@x.com''),
                 (''address'', JStr ''1 Main St''), (''phone_number'', JStr ''555-1111'')]"] json_request_def alice_def
      Account_create_def Account_def example_env_def empty_store_def Let_def)

lemma find_alice:
  "Account_find alice_store 1 =
     Some \<lparr>acc_id = Some 1, name = JStr ''Alice'', email = JStr ''a@x.com'',
               address = JStr ''1 Main St'', phone_number = JStr ''555-1111'',
               date_joined = JStr ''2026-11-04''\<rparr>"
  by (simp add: alice_store_eq Account_find_def)

lemma find_nobody: "Account_find alice_store 999999 = None"
  by (simp add: alice_store_eq Account_find_def)

lemma failed_update_keeps_assignments:
  "status_of (fst (update_account example_env 1 (json_request (JObj [(''name'', JStr ''X'')]))
      alice_store)) = 400 \<and>
   Account_find (snd (update_account example_env 1 (json_request (JObj [(''name'', JStr ''X'')]))
      alice_store)) 1 =
     Some \<lparr>acc_id = Some 1, name = JStr ''X'', email = JStr ''a@x.com'',
           address = JStr ''1 Main St'', phone_number = JStr ''555-1111'',
           date_joined = JStr ''2026-11-04''\<rparr> \<and>
   calls (snd (update_account example_env 1 (json_request (JObj [(''name'', JStr ''X'')]))
      alice_store)) = calls alice_store"
  by (simp add: update_account_def find_alice get_json_exact json_request_def)
     (simp add: alice_store_eq Account_find_def)

lemma store_ok_update_account:
  "store_ok s \<Longrightarrow> store_ok (snd (update_account e i req s))"
proof (cases "Account_find s i")
  case None
  then show "store_ok s \<Longrightarrow> store_ok (snd (update_account e i req s))"
    by (simp add: update_account_def)
next
  case (Some a)
  assume ok: "store_ok s"
  have ida: "acc_id a = Some i" using Some by (rule find_acc_id)
  have lt: "i < next_id s"
    using ok Some ida
    by (auto simp: store_ok_def Account_find_def find_Some_iff list_all_iff split: option.splits)
  have good: "store_ok (Account_update a' s)" if "Account_deserialize e a d = Inr a'" for d a'
    using store_ok_update [OF ok Some, of a'] deserialize_acc_id [OF that] ida
    by simp
  have bad: "store_ok (s\<lparr>rows := assign_in_place left (rows s)\<rparr>)"
    if "Account_deserialize e a d = Inl (x, left)" for d x left
    using assign_set [of left "rows s"] deserialize_left_acc_id [OF that] ida lt ok
    by (auto simp: store_ok_def list_all_iff split: option.splits)
  from ok Some good bad show "store_ok (snd (update_account e i req s))"
    by (auto simp: update_account_def split: sum.splits prod.splits)
qed

lemma store_ok_delete_account: "store_ok s \<Longrightarrow> store_ok (snd (delete_account i s))"
  by (simp add: delete_account_def store_ok_delete split: option.splits)

lemma create_all_rows:
  "list_all valid_payload ps \<Longrightarrow>
   length (rows (create_all e ps s)) = length (rows s) + length ps"
proof (induction ps arbitrary: s)
  case Nil
  then show ?case by simp
next
  case (Cons p ps)
  from Cons.prems obtain kvs where p: "p = JObj kvs" and v: "valid_payload (JObj kvs)"
    by (cases p) auto
  have "length (rows (snd (create_accounts e (json_request p) s))) = Suc (length (rows s))"
    by (simp add: create_accounts_valid [where kvs = kvs] p v json_request_def
        Account_create_def Let_def del: valid_payload.simps)
  with Cons show ?case by simp
qed

lemma not_json_text_html: "\<not> is_json \<lparr>content_type = Some ''text/html'', data = d\<rparr>"
  by (simp add: is_json_def mimetype_def strip_def is_space_def lower_def)

lemma not_json_missing: "\<not> is_json \<lparr>content_type = None, data = d\<rparr>"
  by (simp add: is_json_def mimetype_def)

subsection \<open>The claims\<close>

text \<open>
  C1. A valid create payload (a JSON object with \<open>name\<close>, \<open>email\<close> and \<open>address\<close>) posted with
  Content-Type application/json on a store as the operations leave it: the answer is 201
  with a Location header and a body that carries the id the store assigned and, for each of
  the five payload keys the payload supplied, the submitted value; reading the returned id
  afterwards answers 200 with the very same representation.
\<close>

theorem create_read_roundtrip:
  assumes "store_ok s"
    and "content_type req = Some ''application/json''"
    and "data req = Some (JObj kvs)"
    and "valid_payload (JObj kvs)"
  shows "\<exists>r s' fs.
           create_accounts e req s = (Inr r, s') \<and>
           status_code r = 201 \<and>
           map_of (headers r) ''Location'' \<noteq> None \<and>
           body r = Json (JObj fs) \<and>
           map_of fs ''id'' = Some (JNum (next_id s)) \<and>
           (\<forall>k \<in> {''name'', ''email'', ''address'', ''phone_number'', ''date_joined''}.
              \<forall>v. map_of kvs k = Some v \<longrightarrow> map_of fs k = Some v) \<and>
           get_account (next_id s) s' = make_response (Json (JObj fs)) 200 []"
proof -
  define a where "a = Account\<lparr>name := the (map_of kvs ''name''), email := the (map_of kvs ''email''),
            address := the (map_of kvs ''address''),
            phone_number := (case map_of kvs ''phone_number'' of None \<Rightarrow> JNull | Some p \<Rightarrow> p),
            date_joined := (case map_of kvs ''date_joined'' of None \<Rightarrow> JStr (today e) | Some d \<Rightarrow> d)\<rparr>"
  define a' where "a' = a\<lparr>acc_id := Some (next_id s)\<rparr>"
  define s' where "s' = snd (Account_create a s)"
  have cr: "Account_create a s = (a', s')"
    by (simp add: a'_def s'_def Account_create_def Let_def)
  have run: "create_accounts e req s =
      (Inr (make_response (Json (Account_serialize a')) 201 [(''Location'', ''/'')]), s')"
    using create_accounts_valid [OF assms(2,3,4), of e s] cr by (simp add: a_def)
  have found: "Account_find s' (next_id s) = Some a'"
    using find_created [OF assms(1), of a] by (simp add: s'_def a'_def)
  have rd: "get_account (next_id s) s' = make_response (Json (Account_serialize a')) 200 []"
    by (simp add: get_account_def found)
  obtain fs where fs: "Account_serialize a' = JObj fs"
    and fs_def: "fs = [(''id'', JNum (next_id s)), (''name'', name a), (''email'', email a),
           (''address'', address a), (''phone_number'', phone_number a),
           (''date_joined'', date_joined a)]"
    by (simp add: Account_serialize_def a'_def)
  have keys: "\<forall>k \<in> {''name'', ''email'', ''address'', ''phone_number'', ''date_joined''}.
              \<forall>v. map_of kvs k = Some v \<longrightarrow> map_of fs k = Some v"
    by (simp add: fs_def a_def)
  have idk: "map_of fs ''id'' = Some (JNum (next_id s))"
    by (simp add: fs_def)
  show ?thesis
    using run rd fs keys idk by (simp add: make_response_def)
qed

text \<open>The theorem at the example scenario.\<close>

theorem create_read_roundtrip_witness:
  "store_ok empty_store \<and>
   content_type (json_request alice) = Some ''application/json'' \<and>
   data (json_request alice) = Some alice \<and>
   valid_payload alice \<and>
   (\<exists>r s' fs.
      create_accounts example_env (json_request alice) empty_store = (Inr r, s') \<and>
      status_code r = 201 \<and>
      map_of (headers r) ''Location'' \<noteq> None \<and>
      body r = Json (JObj fs) \<and>
      map_of fs ''id'' = Some (JNum 1) \<and>
      map_of fs ''name'' = Some (JStr ''Alice'') \<and>
      get_account 1 s' = make_response (Json (JObj fs)) 200 [])"
proof -
  let ?kvs = "[(''name'', JStr ''Alice''), (''email'', JStr ''a@x.com''),
               (''address'', JStr ''1 Main St''), (''phone_number'', JStr ''555-1111'')]"
  have h1: "store_ok empty_store" by (rule store_ok_empty)
  have h2: "content_type (json_request alice) = Some ''application/json''"
    by (simp add: json_request_def)
  have h3: "data (json_request alice) = Some (JObj ?kvs)"
    by (simp add: json_request_def alice_def)
  have h4: "valid_payload (JObj ?kvs)" by simp
  have n: "next_id empty_store = 1" by (simp add: empty_store_def)
  from create_read_roundtrip [OF h1 h2 h3 h4, of example_env]
  obtain r s' fs where
    "create_accounts example_env (json_request alice) empty_store = (Inr r, s')"
    "status_code r = 201" "map_of (headers r) ''Location'' \<noteq> None"
    "body r = Json (JObj fs)" "map_of fs ''id'' = Some (JNum 1)"
    "\<forall>k \<in> {''name'', ''email'', ''address'', ''phone_number'', ''date_joined''}.
              \<forall>v. map_of ?kvs k = Some v \<longrightarrow> map_of fs k = Some v"
    "get_account 1 s' = make_response (Json (JObj fs)) 200 []"
    unfolding n by blast
  moreover from this(6) have "map_of fs ''name'' = Some (JStr ''Alice'')" by simp
  ultimately show ?thesis using h1 h2 h3 h4 by (simp add: alice_def)
qed

text \<open>
  C2, as the handlers have it. For an id that identifies no account, GET and PUT both
  answer 404 with the body \<open>{"error": "Account not found"}\<close>, whatever the request, and PUT
  leaves the store alone. For an id that identifies an account, GET answers 200 with the
  serialized account; PUT answers 200 with the updated serialized account when
  \<open>get_json\<close> delivers the body and the body deserializes, and 400 when the body fails
  deserialization.
\<close>

theorem read_update_found_or_not:
  "(Account_find s i = None \<longrightarrow>
      get_account i s =
        \<lparr>status_code = 404, headers = [],
         body = Json (JObj [(''error'', JStr ''Account not found'')])\<rparr> \<and>
      update_account e i req s =
        (Inr \<lparr>status_code = 404, headers = [],
              body = Json (JObj [(''error'', JStr ''Account not found'')])\<rparr>, s)) \<and>
   (\<forall>a. Account_find s i = Some a \<longrightarrow>
      get_account i s =
        \<lparr>status_code = 200, headers = [], body = Json (Account_serialize a)\<rparr> \<and>
      (\<forall>d. get_json e req = Inr d \<longrightarrow>
         (\<forall>a'. Account_deserialize e a d = Inr a' \<longrightarrow>
            fst (update_account e i req s) =
              Inr \<lparr>status_code = 200, headers = [], body = Json (Account_serialize a')\<rparr>) \<and>
         (\<forall>left. Account_deserialize e a d = Inl (DataValidationError, left) \<longrightarrow>
            status_of (fst (update_account e i req s)) = 400)))"
  by (simp add: get_account_def update_account_def make_response_def not_found_def)

text \<open>The theorem at the example scenario.\<close>

theorem read_update_found_or_not_witness:
  "Account_find alice_store 999999 = None \<and>
   status_code (get_account 999999 alice_store) = 404 \<and>
   status_of (fst (update_account example_env 999999 (json_request (JObj [])) alice_store)) = 404 \<and>
   Account_find alice_store 1 \<noteq> None \<and>
   status_code (get_account 1 alice_store) = 200 \<and>
   get_json example_env (json_request bob) = Inr bob \<and>
   status_of (fst (update_account example_env 1 (json_request bob) alice_store)) = 200 \<and>
   get_json example_env (json_request (JObj [])) = Inr (JObj []) \<and>
   status_of (fst (update_account example_env 1 (json_request (JObj [])) alice_store)) = 400"
proof -
  let ?a = "\<lparr>acc_id = Some 1, name = JStr ''Alice'', email = JStr ''a@x.com'',
               address = JStr ''1 Main St'', phone_number = JStr ''555-1111'',
               date_joined = JStr ''2026-11-04''\<rparr>"
  have g1: "get_json example_env (json_request bob) = Inr bob"
    by (simp add: get_json_exact json_request_def)
  have g2: "get_json example_env (json_request (JObj [])) = Inr (JObj [])"
    by (simp add: get_json_exact json_request_def)
  have d1: "\<exists>a'. Account_deserialize example_env ?a bob = Inr a'"
    by (simp add: bob_def)
  have d2: "Account_deserialize example_env ?a (JObj []) = Inl (DataValidationError, ?a)"
    by simp
  from read_update_found_or_not [of alice_store 999999 example_env "json_request (JObj [])"]
    read_update_found_or_not [of alice_store 1 example_env "json_request bob"]
    read_update_found_or_not [of alice_store 1 example_env "json_request (JObj [])"]
    find_nobody find_alice g1 g2 d1 d2
  show ?thesis by auto
qed

text \<open>
  The PUT of an empty object on the existing account 1 is answered 400, not 200.
\<close>

theorem update_existing_bad_body_counterexample:
  "Account_find alice_store 1 \<noteq> None \<and>
   status_of (fst (update_account example_env 1 (json_request (JObj [])) alice_store)) = 400 \<and>
   status_of (fst (update_account example_env 1 (json_request (JObj [])) alice_store)) \<noteq> 200"
  by (simp add: update_account_def find_alice get_json_exact json_request_def)

text \<open>
  C3. DELETE answers 204 with an empty body for every id, whether or not an account has
  that id; when none has, the store comes back as it was, rows and issued persistence
  writes alike.
\<close>

theorem delete_always_no_content:
  "fst (delete_account i s) = \<lparr>status_code = 204, headers = [], body = Text []\<rparr> \<and>
   (Account_find s i = None \<longrightarrow> snd (delete_account i s) = s)"
  by (simp add: delete_account_def make_response_def)

text \<open>The theorem at the example scenario.\<close>

theorem delete_always_no_content_witness:
  "Account_find alice_store 999999 = None \<and>
   fst (delete_account 999999 alice_store) = \<lparr>status_code = 204, headers = [], body = Text []\<rparr> \<and>
   snd (delete_account 999999 alice_store) = alice_store \<and>
   calls (snd (delete_account 999999 alice_store)) = [Created 1]"
  using delete_always_no_content [of 999999 alice_store] find_nobody
  by (simp add: alice_store_eq)

text \<open>
  C4. A create request whose Content-Type is not exactly \<open>application/json\<close> (a missing
  header included) is answered 415; the store is unchanged and the answer is the same
  whatever the body is, since the body is never read.
\<close>

theorem create_unsupported_media_type:
  assumes "content_type req \<noteq> Some ''application/json''"
  shows "status_of (fst (create_accounts e req s)) = 415 \<and>
         snd (create_accounts e req s) = s \<and>
         create_accounts e (req\<lparr>data := d\<rparr>) s = create_accounts e req s"
  using assms by (simp add: create_accounts_def check_content_type_415)

text \<open>The theorem at the example scenario.\<close>

theorem create_unsupported_media_type_witness:
  "status_of (fst (create_accounts example_env \<lparr>content_type = Some ''test/html'', data = Some alice\<rparr> alice_store)) = 415 \<and>
   snd (create_accounts example_env \<lparr>content_type = Some ''test/html'', data = Some alice\<rparr> alice_store) = alice_store \<and>
   status_of (fst (create_accounts example_env \<lparr>content_type = None, data = Some alice\<rparr> alice_store)) = 415 \<and>
   snd (create_accounts example_env \<lparr>content_type = None, data = Some alice\<rparr> alice_store) = alice_store"
  using create_unsupported_media_type [of "\<lparr>content_type = Some ''test/html'', data = Some alice\<rparr>" example_env alice_store]
    create_unsupported_media_type [of "\<lparr>content_type = None, data = Some alice\<rparr>" example_env alice_store]
  by simp

text \<open>
  C5. A create request with Content-Type application/json whose body is not JSON, is
  not a JSON object, or lacks one of \<open>name\<close>, \<open>email\<close>, \<open>address\<close> is answered 400, and the
  store is unchanged.
\<close>

theorem create_bad_request:
  assumes "content_type req = Some ''application/json''"
    and "\<forall>p. data req = Some p \<longrightarrow> \<not> valid_payload p"
  shows "status_of (fst (create_accounts e req s)) = 400 \<and> snd (create_accounts e req s) = s"
proof (cases "data req")
  case None
  then show ?thesis
    using assms(1) by (simp add: create_accounts_def check_content_type_def get_json_exact)
next
  case (Some p)
  with assms(2) obtain left where "Account_deserialize e Account p = Inl (DataValidationError, left)"
    using deserialize_invalid [of p e Account] by blast
  with Some show ?thesis
    using assms(1) by (simp add: create_accounts_def check_content_type_def get_json_exact)
qed

text \<open>The theorem at the example scenario.\<close>

theorem create_bad_request_witness:
  "\<not> valid_payload (JObj [(''name'', JStr ''not enough data'')]) \<and>
   status_of (fst (create_accounts example_env (json_request (JObj [(''name'', JStr ''not enough data'')])) alice_store)) = 400 \<and>
   snd (create_accounts example_env (json_request (JObj [(''name'', JStr ''not enough data'')])) alice_store) = alice_store \<and>
   status_of (fst (create_accounts example_env (json_request (JArr [])) alice_store)) = 400 \<and>
   status_of (fst (create_accounts example_env \<lparr>content_type = Some ''application/json'', data = None\<rparr> alice_store)) = 400"
  using create_bad_request [of "json_request (JObj [(''name'', JStr ''not enough data'')])" example_env alice_store]
    create_bad_request [of "json_request (JArr [])" example_env alice_store]
    create_bad_request [of "\<lparr>content_type = Some ''application/json'', data = None\<rparr>" example_env alice_store]
  by (simp add: json_request_def)

text \<open>
  C6. After N valid payloads are posted one after the other on the empty store, the
  listing answers 200 with a JSON array of exactly N entries, each an object with the keys
  \<open>id, name, email, address, phone_number, date_joined\<close>; for N = 0 the array is empty.
\<close>

theorem list_after_creates:
  assumes "list_all valid_payload ps"
  shows "\<exists>xs. get_all_accounts_route (create_all e ps empty_store) =
                 \<lparr>status_code = 200, headers = [], body = Json (JArr xs)\<rparr> \<and>
              length xs = length ps \<and>
              (\<forall>x \<in> set xs. \<exists>fs. x = JObj fs \<and>
                 map fst fs = [''id'', ''name'', ''email'', ''address'', ''phone_number'', ''date_joined''])"
proof -
  let ?xs = "map Account_serialize (rows (create_all e ps empty_store))"
  have "get_all_accounts_route (create_all e ps empty_store) =
          \<lparr>status_code = 200, headers = [], body = Json (JArr ?xs)\<rparr>"
    by (simp add: get_all_accounts_route_def Account_all_def make_response_def)
  moreover have "length ?xs = length ps"
    using create_all_rows [OF assms, of e empty_store] by (simp add: empty_store_def)
  moreover have "\<forall>x \<in> set ?xs. \<exists>fs. x = JObj fs \<and>
                 map fst fs = [''id'', ''name'', ''email'', ''address'', ''phone_number'', ''date_joined'']"
    by (auto simp: Account_serialize_def)
  ultimately show ?thesis by blast
qed

text \<open>The theorem at the example scenario.\<close>

theorem list_after_creates_witness:
  "list_all valid_payload [alice, bob, alice] \<and>
   (\<exists>xs. get_all_accounts_route (create_all example_env [alice, bob, alice] empty_store) =
                 \<lparr>status_code = 200, headers = [], body = Json (JArr xs)\<rparr> \<and>
              length xs = 3) \<and>
   get_all_accounts_route (create_all example_env [] empty_store) =
                 \<lparr>status_code = 200, headers = [], body = Json (JArr [])\<rparr>"
proof -
  have h: "list_all valid_payload [alice, bob, alice]"
    by (simp add: alice_def bob_def)
  have h0: "list_all valid_payload []" by simp
  from list_after_creates [OF h, of example_env] list_after_creates [OF h0, of example_env] h
  show ?thesis by auto
qed

text \<open>
  C7. Deleting an id that identifies an account answers 204, removes the row, and a
  read of that id afterwards answers 404.
\<close>

theorem delete_then_read_not_found:
  assumes "Account_find s i = Some a"
  shows "fst (delete_account i s) = \<lparr>status_code = 204, headers = [], body = Text []\<rparr> \<and>
         Account_find (snd (delete_account i s)) i = None \<and>
         get_account i (snd (delete_account i s)) =
           \<lparr>status_code = 404, headers = [],
            body = Json (JObj [(''error'', JStr ''Account not found'')])\<rparr>"
  using assms find_deleted [OF find_acc_id [OF assms], of s]
  by (simp add: delete_account_def get_account_def make_response_def not_found_def)

text \<open>The theorem at the example scenario.\<close>

theorem delete_then_read_not_found_witness:
  "Account_find alice_store 1 \<noteq> None \<and>
   status_code (fst (delete_account 1 alice_store)) = 204 \<and>
   status_code (get_account 1 alice_store) = 200 \<and>
   status_code (get_account 1 (snd (delete_account 1 alice_store))) = 404"
  using delete_then_read_not_found [OF find_alice] find_alice
  by (simp add: get_account_def make_response_def)

text \<open>
  C8. A successful PUT on an existing account changes only the fields the body supplies
  and never the id: the account found under the id afterwards has the id it had, each of
  \<open>name\<close>, \<open>email\<close>, \<open>address\<close>, \<open>phone_number\<close> and \<open>date_joined\<close> is the supplied value
  when the body supplies the key and the prior value when it does not, and every other
  account, the number of rows and the next id are as they were.
\<close>

theorem update_changes_supplied_only:
  assumes "Account_find s i = Some a"
    and "update_account e i req s = (Inr r, s')"
  shows "\<exists>kvs a'.
           get_json e req = Inr (JObj kvs) \<and>
           r = \<lparr>status_code = 200, headers = [], body = Json (Account_serialize a')\<rparr> \<and>
           Account_find s' i = Some a' \<and>
           acc_id a' = acc_id a \<and> acc_id a' = Some i \<and>
           name a' = (case map_of kvs ''name'' of None \<Rightarrow> name a | Some v \<Rightarrow> v) \<and>
           email a' = (case map_of kvs ''email'' of None \<Rightarrow> email a | Some v \<Rightarrow> v) \<and>
           address a' = (case map_of kvs ''address'' of None \<Rightarrow> address a | Some v \<Rightarrow> v) \<and>
           phone_number a' =
             (case map_of kvs ''phone_number'' of None \<Rightarrow> phone_number a | Some v \<Rightarrow> v) \<and>
           date_joined a' =
             (case map_of kvs ''date_joined'' of None \<Rightarrow> date_joined a | Some v \<Rightarrow> v) \<and>
           (\<forall>j. j \<noteq> i \<longrightarrow> Account_find s' j = Account_find s j) \<and>
           length (rows s') = length (rows s) \<and> next_id s' = next_id s"
proof -
  from assms obtain d a' where d: "get_json e req = Inr d"
    and des: "Account_deserialize e a d = Inr a'"
    and r: "r = make_response (Json (Account_serialize a')) 200 []"
    and s': "s' = Account_update a' s"
    by (auto simp: update_account_def split: sum.splits prod.splits)
  from des obtain kvs where kvs: "d = JObj kvs"
    by (cases d) auto
  have idi: "acc_id a = Some i" using assms(1) by (rule find_acc_id)
  have ida: "acc_id a' = Some i" using deserialize_acc_id [OF des] idi by simp
  have fields:
    "name a' = (case map_of kvs ''name'' of None \<Rightarrow> name a | Some v \<Rightarrow> v) \<and>
     email a' = (case map_of kvs ''email'' of None \<Rightarrow> email a | Some v \<Rightarrow> v) \<and>
     address a' = (case map_of kvs ''address'' of None \<Rightarrow> address a | Some v \<Rightarrow> v) \<and>
     phone_number a' =
       (case map_of kvs ''phone_number'' of None \<Rightarrow> phone_number a | Some v \<Rightarrow> v) \<and>
     date_joined a' =
       (case map_of kvs ''date_joined'' of None \<Rightarrow> date_joined a | Some v \<Rightarrow> v)"
    using des idi unfolding kvs by (auto split: option.splits)
  have same: "Account_find s' i = Some a'"
    unfolding s' using ida assms(1) by (rule find_updated_same)
  have other: "\<forall>j. j \<noteq> i \<longrightarrow> Account_find s' j = Account_find s j"
    unfolding s' using find_updated_other [OF ida] by blast
  have shape: "length (rows s') = length (rows s) \<and> next_id s' = next_id s"
    by (simp add: s' Account_update_def)
  show ?thesis
    using d kvs r same ida idi fields other shape
    by (auto simp: make_response_def)
qed

text \<open>The theorem at the example scenario.\<close>

theorem update_changes_supplied_only_witness:
  "(\<exists>r s'. update_account example_env 1 (json_request bob) alice_store = (Inr r, s') \<and>
      status_code r = 200 \<and>
      (\<exists>a'. Account_find s' 1 = Some a' \<and> acc_id a' = Some 1 \<and> name a' = JStr ''Bob'' \<and>
         phone_number a' = JStr ''555-1111'' \<and> date_joined a' = JStr ''2026-11-04'') \<and>
      Account_find s' 999999 = None)"
proof -
  let ?a = "\<lparr>acc_id = Some 1, name = JStr ''Alice'', email = JStr ''a@x.com'',
               address = JStr ''1 Main St'', phone_number = JStr ''555-1111'',
               date_joined = JStr ''2026-11-04''\<rparr>"
  let ?b = "\<lparr>acc_id = Some 1, name = JStr ''Bob'', email = JStr ''b@x.com'',
               address = JStr ''2 Side St'', phone_number = JStr ''555-1111'',
               date_joined = JStr ''2026-11-04''\<rparr>"
  have run: "update_account example_env 1 (json_request bob) alice_store =
      (Inr (make_response (Json (Account_serialize ?b)) 200 []), Account_update ?b alice_store)"
    by (simp add: update_account_def find_alice get_json_exact json_request_def bob_def)
  have g: "get_json example_env (json_request bob) = Inr bob"
    by (simp add: get_json_exact json_request_def)
  from update_changes_supplied_only [OF find_alice run] g find_nobody
  show ?thesis unfolding run
    by (auto simp: make_response_def bob_def)
qed

text \<open>
  C9. Every successful create answers 201 with the single header
  \<open>Location: /\<close>: the constant string, whatever id the account got.
\<close>

theorem create_location_constant:
  assumes "create_accounts e req s = (Inr r, s')"
  shows "status_code r = 201 \<and> headers r = [(''Location'', ''/'')]"
  using assms
  by (auto simp: create_accounts_def make_response_def split: sum.splits prod.splits)

text \<open>The theorem at the example scenario.\<close>

theorem create_location_constant_witness:
  "(\<exists>r s'. create_accounts example_env (json_request alice) empty_store = (Inr r, s') \<and>
      status_code r = 201 \<and> headers r = [(''Location'', ''/'')] \<and>
      body r = Json (Account_serialize \<lparr>acc_id = Some 1, name = JStr ''Alice'', email = JStr ''a@x.com'',
               address = JStr ''1 Main St'', phone_number = JStr ''555-1111'',
               date_joined = JStr ''2026-11-04''\<rparr>))"
proof -
  let ?kvs = "[(''name'', JStr ''Alice''), (''email'', JStr ''a@x.com''),
               (''address'', JStr ''1 Main St''), (''phone_number'', JStr ''555-1111'')]"
  let ?r = "make_response (Json (Account_serialize \<lparr>acc_id = Some 1, name = JStr ''Alice'', email = JStr ''a@x.com'',
               address = JStr ''1 Main St'', phone_number = JStr ''555-1111'',
               date_joined = JStr ''2026-11-04''\<rparr>)) 201 [(''Location'', ''/'')]"
  have run: "create_accounts example_env (json_request alice) empty_store = (Inr ?r, alice_store)"
    unfolding alice_store_def
    by (simp add: create_accounts_valid [where kvs = ?kvs] json_request_def alice_def
        Account_create_def Account_def example_env_def empty_store_def Let_def)
  from create_location_constant [OF run] run show ?thesis
    by (simp add: make_response_def)
qed

text \<open>
  C10, as the code has it. The update handler never calls \<open>check_content_type\<close>; the
  Content-Type of a PUT on an existing account matters only through \<open>get_json\<close>. Two
  requests with a JSON media type and the same body are processed alike (so
  \<open>application/json; charset=utf-8\<close> is accepted, which create's exact comparison
  refuses). A request whose media type is not JSON (a missing header included) is not
  processed: the store is unchanged and the status is 400, or the status the framework's
  \<open>get_json\<close> raises. A 415 can only come from there, never from the handler.
\<close>

theorem update_content_type:
  assumes "Account_find s i = Some a"
  shows "(is_json req \<and> is_json req' \<and> data req' = data req \<longrightarrow>
            update_account e i req' s = update_account e i req s) \<and>
         (\<not> is_json req \<longrightarrow>
            snd (update_account e i req s) = s \<and>
            status_of (fst (update_account e i req s)) =
              (case non_json e of None \<Rightarrow> 400 | Some code \<Rightarrow> code)) \<and>
         (status_of (fst (update_account e i req s)) = 415 \<longrightarrow>
            \<not> is_json req \<and> non_json e = Some 415)"
proof (intro conjI impI)
  assume "is_json req \<and> is_json req' \<and> data req' = data req"
  then have "get_json e req' = get_json e req" by (simp add: get_json_def)
  then show "update_account e i req' s = update_account e i req s"
    using assms by (simp add: update_account_def)
next
  assume nj: "\<not> is_json req"
  have "assign_in_place a (rows s) = rows s"
    using assms by (simp add: Account_find_def assign_found)
  then show "snd (update_account e i req s) = s"
    using assms nj by (simp add: update_account_def get_json_def split: option.splits)
  show "status_of (fst (update_account e i req s)) =
          (case non_json e of None \<Rightarrow> 400 | Some code \<Rightarrow> code)"
    using assms nj by (simp add: update_account_def get_json_def split: option.splits)
next
  assume st: "status_of (fst (update_account e i req s)) = 415"
  show "\<not> is_json req"
  proof
    assume j: "is_json req"
    show False
    proof (cases "data req")
      case None
      with st assms j show False by (simp add: update_account_def get_json_def)
    next
      case (Some d)
      with st assms j deserialize_cases [of e a d] show False
        by (auto simp: update_account_def get_json_def make_response_def)
    qed
  qed
  then show "non_json e = Some 415"
    using st assms by (simp add: update_account_def get_json_def split: option.splits)
qed

text \<open>The theorem at the example scenario.\<close>

theorem update_content_type_witness:
  "Account_find alice_store 1 \<noteq> None \<and>
   is_json \<lparr>content_type = Some ''application/json'', data = Some bob\<rparr> \<and>
   is_json \<lparr>content_type = Some ''application/json; charset=utf-8'', data = Some bob\<rparr> \<and>
   update_account example_env 1 \<lparr>content_type = Some ''application/json; charset=utf-8'', data = Some bob\<rparr> alice_store =
     update_account example_env 1 \<lparr>content_type = Some ''application/json'', data = Some bob\<rparr> alice_store \<and>
   \<not> is_json \<lparr>content_type = Some ''text/html'', data = Some bob\<rparr> \<and>
   snd (update_account example_env 1 \<lparr>content_type = Some ''text/html'', data = Some bob\<rparr> alice_store) = alice_store \<and>
   status_of (fst (update_account example_env 1 \<lparr>content_type = Some ''text/html'', data = Some bob\<rparr> alice_store)) = 400 \<and>
   status_of (fst (update_account (example_env\<lparr>non_json := Some 415\<rparr>) 1 \<lparr>content_type = Some ''text/html'', data = Some bob\<rparr> alice_store)) = 415"
proof -
  let ?json = "\<lparr>content_type = Some ''application/json'', data = Some bob\<rparr>"
  let ?utf8 = "\<lparr>content_type = Some ''application/json; charset=utf-8'', data = Some bob\<rparr>"
  let ?html = "\<lparr>content_type = Some ''text/html'', data = Some bob\<rparr>"
  have j1: "is_json ?json"
    by (simp add: is_json_exact)
  have j2: "is_json ?utf8"
    by (simp add: is_json_def mimetype_def strip_def is_space_def lower_def)
  have nj: "\<not> is_json ?html"
    by (rule not_json_text_html)
  have e: "non_json example_env = Some 400"
    by (simp add: example_env_def)
  have same: "update_account example_env 1 ?utf8 alice_store =
      update_account example_env 1 ?json alice_store"
    using update_content_type [OF find_alice, of ?json ?utf8 example_env] j1 j2 by simp
  have kept: "snd (update_account example_env 1 ?html alice_store) = alice_store"
    using update_content_type [OF find_alice, of ?html ?html example_env] nj by blast
  have st400: "status_of (fst (update_account example_env 1 ?html alice_store)) = 400"
    using update_content_type [OF find_alice, of ?html ?html example_env] nj e by simp
  have st415: "status_of (fst (update_account (example_env\<lparr>non_json := Some 415\<rparr>) 1 ?html
      alice_store)) = 415"
    using update_content_type [OF find_alice, of ?html ?html "example_env\<lparr>non_json := Some 415\<rparr>"] nj
    by simp
  have f: "Account_find alice_store 1 \<noteq> None"
    by (simp add: find_alice)
  show ?thesis
    using f j1 j2 same nj kept st400 st415 by blast
qed

text \<open>
  The same body put on the existing account 1 is answered 200 with Content-Type
  application/json, and 400 or 415 with Content-Type text/html or with no Content-Type,
  under each of the three behaviours of the framework's \<open>get_json\<close>.
\<close>

theorem update_content_type_counterexample:
  "status_of (fst (update_account (example_env\<lparr>non_json := None\<rparr>) 1
       \<lparr>content_type = Some ''application/json'', data = Some bob\<rparr> alice_store)) = 200 \<and>
   status_of (fst (update_account (example_env\<lparr>non_json := None\<rparr>) 1
       \<lparr>content_type = Some ''text/html'', data = Some bob\<rparr> alice_store)) = 400 \<and>
   status_of (fst (update_account (example_env\<lparr>non_json := None\<rparr>) 1
       \<lparr>content_type = None, data = Some bob\<rparr> alice_store)) = 400 \<and>
   status_of (fst (update_account (example_env\<lparr>non_json := Some 400\<rparr>) 1
       \<lparr>content_type = Some ''application/json'', data = Some bob\<rparr> alice_store)) = 200 \<and>
   status_of (fst (update_account (example_env\<lparr>non_json := Some 400\<rparr>) 1
       \<lparr>content_type = Some ''text/html'', data = Some bob\<rparr> alice_store)) = 400 \<and>
   status_of (fst (update_account (example_env\<lparr>non_json := Some 400\<rparr>) 1
       \<lparr>content_type = None, data = Some bob\<rparr> alice_store)) = 400 \<and>
   status_of (fst (update_account (example_env\<lparr>non_json := Some 415\<rparr>) 1
       \<lparr>content_type = Some ''application/json'', data = Some bob\<rparr> alice_store)) = 200 \<and>
   status_of (fst (update_account (example_env\<lparr>non_json := Some 415\<rparr>) 1
       \<lparr>content_type = Some ''text/html'', data = Some bob\<rparr> alice_store)) = 415 \<and>
   status_of (fst (update_account (example_env\<lparr>non_json := Some 415\<rparr>) 1
       \<lparr>content_type = None, data = Some bob\<rparr> alice_store)) = 415"
  by (simp add: update_account_def find_alice get_json_exact bob_def make_response_def)
     (simp add: get_json_def not_json_text_html not_json_missing)

end
